theory Spec2Isabelle
  imports Main "HOL-Library.Sublist" "HOL-Library.Multiset"
begin

section \<open>The document model read and written by ppt_builder.py\<close>

text \<open>
  The builder works on python-pptx objects. The fields below are exactly the attributes
  the source reads or writes. An attribute whose access can raise is an option with
  \<open>None\<close> for the raise, so that every \<open>try/except\<close> of the source is a branch here.
\<close>

datatype ph_type =
  TITLE | CENTER_TITLE | SUBTITLE | BODY | OBJECT | PICTURE | SLIDE_IMAGE
  | DATE | FOOTER | SLIDE_NUMBER | OTHER_PLACEHOLDER

datatype mso_shape_type = MSO_PICTURE | MSO_PLACEHOLDER | MSO_TEXT_BOX | MSO_AUTO_SHAPE

datatype error = IndexError | TemplateError | SaveError | ProviderError

record run =
  run_text :: string
  font_size :: "nat option"

record para =
  runs :: "run list"
  level :: nat

record text_frame =
  paragraphs :: "para list"
  word_wrap :: "bool option"

text \<open>
  A shape. \<open>shape_type = None\<close> and \<open>ph_type = None\<close> stand for an attribute access
  that raises; \<open>text_frame = None\<close> for a missing or \<open>None\<close> text frame;
  \<open>image_blob = None\<close> for a shape without a readable \<open>image\<close>. \<open>tf_raises\<close> and
  \<open>insert_picture_raises\<close> say whether the library raises when the text frame is
  modified or a picture is inserted into the placeholder.
\<close>

record shape =
  shape_type :: "mso_shape_type option"
  ph_type :: "ph_type option"
  ph_idx :: nat
  text_frame :: "text_frame option"
  tf_raises :: bool
  image_blob :: "string option"
  width :: "int option"
  height :: "int option"
  insert_picture_raises :: bool

datatype name_attr = NameRaises | NameNone | Name string

record layout =
  lname :: name_attr
  lplaceholders :: "shape list"

datatype notes_support = NotesRaises | NotesNoFrame | NotesOk

record slide =
  placeholders :: "shape list"
  other_shapes :: "shape list"
  notes_text :: "string option"
  from_layout :: nat

record presentation =
  slide_layouts :: "layout list"
  slides :: "(nat \<times> slide) list"
  rels :: "nat list"
  slide_masters :: "string list"
  theme :: string
  notes_master :: notes_support
  add_textbox_raises :: bool
  add_picture_raises :: bool
  save_raises :: bool

section \<open>Constants of the module\<close>

definition LAYOUT_PREFS :: "(string \<times> string list) list" where
  "LAYOUT_PREFS =
    [(''title_and_content'', [''Title and Content'', ''Content with Caption'',
                              ''Title and Content (2)'', ''Title and Content 2'']),
     (''title_only'', [''Title Only'', ''Blank Title'', ''Title'']),
     (''section_header'', [''Section Header'', ''Section Title'', ''Title Slide'']),
     (''two_content'', [''Two Content'', ''Two Content and Title'', ''Comparison'']),
     (''quote'', [''Quote'', ''Title Only'']),
     (''comparison'', [''Comparison'', ''Two Content'']),
     (''timeline'', [''Title and Content'', ''Two Content'']),
     (''process'', [''Title and Content'', ''Two Content'']),
     (''overview'', [''Title and Content'', ''Title Only'']),
     (''summary'', [''Title and Content'', ''Title Only''])]"

definition TITLE_TYPES :: "ph_type set" where
  "TITLE_TYPES = {TITLE, CENTER_TITLE, SUBTITLE}"

definition CONTENT_TYPES :: "ph_type set" where
  "CONTENT_TYPES = {BODY, OBJECT}"

definition PICTURE_TYPES :: "ph_type set" where
  "PICTURE_TYPES = {PICTURE, SLIDE_IMAGE}"

section \<open>Strings\<close>

text \<open>
  \<open>str.lower()\<close> on the ASCII letters; the layout names and patterns of the module are
  ASCII. \<open>a in b\<close> on strings is the contiguous-substring test, \<^const>\<open>sublist\<close>.
\<close>

definition lower_char :: "char \<Rightarrow> char" where
  "lower_char c =
     (let n = (of_char c :: nat) in if 65 \<le> n \<and> n \<le> 90 then char_of (n + 32) else c)"

definition lower :: "string \<Rightarrow> string" where
  "lower s = map lower_char s"

section \<open>Layout classification and resolution\<close>

text \<open>\<open>for i, x in enumerate(xs): if P(x): return i\<close>, with \<open>None\<close> when the loop ends.\<close>

fun first_index :: "('a \<Rightarrow> bool) \<Rightarrow> 'a list \<Rightarrow> nat option" where
  "first_index P [] = None"
| "first_index P (x # xs) = (if P x then Some 0 else map_option Suc (first_index P xs))"

text \<open>
  \<open>_layout_has_body\<close>: the \<open>try\<close> encloses the whole loop, so the first placeholder
  whose type cannot be read ends the function with \<open>False\<close>.
\<close>

fun has_body_loop :: "shape list \<Rightarrow> bool" where
  "has_body_loop [] = False"
| "has_body_loop (ph # phs) =
     (case ph_type ph of
        None \<Rightarrow> False
      | Some t \<Rightarrow>
          if t \<in> CONTENT_TYPES then True
          else if t \<notin> TITLE_TYPES \<and> text_frame ph \<noteq> None then True
          else has_body_loop phs)"

definition layout_has_body :: "layout \<Rightarrow> bool" where
  "layout_has_body l = has_body_loop (lplaceholders l)"

text \<open>
  The test of the name loops: \<open>lname = getattr(layout, "name", "") or ""\<close> and
  \<open>name.lower() in lname.lower()\<close>, inside a \<open>try\<close> whose handler skips the layout.
\<close>

definition name_matches :: "string \<Rightarrow> layout \<Rightarrow> bool" where
  "name_matches name l =
     (case lname l of
        NameRaises \<Rightarrow> False
      | NameNone \<Rightarrow> sublist (lower name) (lower [])
      | Name n \<Rightarrow> sublist (lower name) (lower n))"

text \<open>
  \<open>next((p[1] for p in LAYOUT_PREFS if p[0] == layout_hint), None) or [...]\<close>. The hint
  is \<open>None\<close> when the plan entry carries Python's \<open>None\<close>.
\<close>

definition prefs_for :: "string option \<Rightarrow> string list" where
  "prefs_for hint =
     (case List.find (\<lambda>p. Some (fst p) = hint) LAYOUT_PREFS of
        Some p \<Rightarrow> (if snd p = [] then [''Title and Content'', ''Title Only''] else snd p)
      | None \<Rightarrow> [''Title and Content'', ''Title Only''])"

fun try_names :: "string list \<Rightarrow> layout list \<Rightarrow> nat option" where
  "try_names [] ls = None"
| "try_names (name # names) ls =
     (case first_index (name_matches name) ls of
        Some i \<Rightarrow> Some i
      | None \<Rightarrow> try_names names ls)"

definition find_layout_index :: "presentation \<Rightarrow> string option \<Rightarrow> nat" where
  "find_layout_index prs layout_hint =
     (case try_names (prefs_for layout_hint) (slide_layouts prs) of
        Some i \<Rightarrow> i
      | None \<Rightarrow>
          (case first_index layout_has_body (slide_layouts prs) of
             Some i \<Rightarrow> i
           | None \<Rightarrow>
               (case first_index (name_matches ''title'') (slide_layouts prs) of
                  Some i \<Rightarrow> i
                | None \<Rightarrow> 0)))"

section \<open>Image harvesting\<close>

type_synonym image = "string \<times> int option \<times> int option"

definition slide_shapes :: "slide \<Rightarrow> shape list" where
  "slide_shapes s = placeholders s @ other_shapes s"

text \<open>
  The body of the inner loop of \<open>_collect_template_images\<close>: a shape contributes
  \<open>(blob, width, height)\<close> when its \<open>shape_type\<close> is \<open>PICTURE\<close> and it has an
  \<open>image\<close>; a shape whose attributes raise is skipped by the handler.
\<close>

definition image_of :: "shape \<Rightarrow> image option" where
  "image_of sh =
     (case shape_type sh of
        Some MSO_PICTURE \<Rightarrow>
          (case image_blob sh of
             Some b \<Rightarrow> Some (b, width sh, height sh)
           | None \<Rightarrow> None)
      | _ \<Rightarrow> None)"

definition harvest :: "presentation \<Rightarrow> image list" where
  "harvest prs = concat (map (\<lambda>s. List.map_filter image_of (slide_shapes (snd s))) (slides prs))"

text \<open>
  \<open>random.shuffle\<close>: \<open>for i in reversed(range(1, len(x))): j = randbelow(i + 1);
  x[i], x[j] = x[j], x[i]\<close>. The random draws are an explicit input \<open>rs\<close>, each reduced
  into the range of its step; a missing draw counts as 0.
\<close>

fun shuffle_loop :: "nat list \<Rightarrow> nat \<Rightarrow> 'a list \<Rightarrow> 'a list" where
  "shuffle_loop rs 0 xs = xs"
| "shuffle_loop rs (Suc k) xs =
     (let j = (case rs of [] \<Rightarrow> 0 | r # _ \<Rightarrow> r mod (Suc (Suc k)))
      in shuffle_loop (tl rs) k (xs[Suc k := xs ! j, j := xs ! Suc k]))"

definition shuffle :: "nat list \<Rightarrow> 'a list \<Rightarrow> 'a list" where
  "shuffle rs xs = shuffle_loop rs (length xs - 1) xs"

definition collect_template_images :: "nat list \<Rightarrow> presentation \<Rightarrow> image list" where
  "collect_template_images rs prs = shuffle rs (harvest prs)"

section \<open>Purging the template's slides\<close>

text \<open>
  \<open>for sldId in list(sldIdLst): prs.part.drop_rel(sldId.rId); sldIdLst.remove(sldId)\<close>:
  the loop runs over a copy of the slide list and removes from the live one.
\<close>

fun purge_loop :: "presentation \<Rightarrow> (nat \<times> slide) list \<Rightarrow> presentation" where
  "purge_loop prs [] = prs"
| "purge_loop prs (sld # rest) =
     purge_loop (prs\<lparr>rels := removeAll (fst sld) (rels prs),
                     slides := remove1 sld (slides prs)\<rparr>) rest"

definition purge_all_existing_slides :: "presentation \<Rightarrow> presentation" where
  "purge_all_existing_slides prs = purge_loop prs (slides prs)"

section \<open>Placeholder lookup\<close>

text \<open>
  A shape found on a slide is referred to by its position in \<open>slide.placeholders\<close>.
  The \<open>try\<close> of both lookups is inside the loop: a placeholder whose type raises is
  skipped and the search goes on.
\<close>

definition first_placeholder :: "slide \<Rightarrow> ph_type set \<Rightarrow> nat option" where
  "first_placeholder sl allowed_types =
     first_index (\<lambda>shp. case ph_type shp of None \<Rightarrow> False | Some t \<Rightarrow> t \<in> allowed_types)
       (placeholders sl)"

definition first_text_capable_non_title :: "slide \<Rightarrow> nat option" where
  "first_text_capable_non_title sl =
     first_index (\<lambda>shp. case ph_type shp of
                           None \<Rightarrow> False
                         | Some t \<Rightarrow> t \<notin> TITLE_TYPES \<and> text_frame shp \<noteq> None)
       (placeholders sl)"

text \<open>\<open>slide.shapes.title\<close> of the library: the first placeholder with \<open>idx == 0\<close>.\<close>

definition shapes_title :: "slide \<Rightarrow> nat option" where
  "shapes_title sl = first_index (\<lambda>shp. ph_idx shp = 0) (placeholders sl)"

section \<open>Writing text\<close>

text \<open>
  \<open>TextFrame.clear()\<close> of the library removes every paragraph but the first and every
  run of the first; it raises on a text frame without paragraphs.
\<close>

definition tf_clear :: "text_frame \<Rightarrow> text_frame option" where
  "tf_clear tf =
     (case paragraphs tf of
        [] \<Rightarrow> None
      | p # _ \<Rightarrow> Some (tf\<lparr>paragraphs := [p\<lparr>runs := []\<rparr>]\<rparr>))"

definition shrink :: "nat \<Rightarrow> para \<Rightarrow> para" where
  "shrink pt p = p\<lparr>runs := map (\<lambda>r. r\<lparr>font_size := Some pt\<rparr>) (runs p)\<rparr>"

definition add_run :: "string \<Rightarrow> para \<Rightarrow> para" where
  "add_run txt p = p\<lparr>runs := runs p @ [\<lparr>run_text = txt, font_size = None\<rparr>]\<rparr>"

text \<open>
  The body of the \<open>try\<close> of \<open>_set_text\<close> after the text-frame test; \<open>None\<close> is an
  exception, which the handler turns into "leave the shape as it is".
\<close>

definition set_text_try :: "shape \<Rightarrow> text_frame \<Rightarrow> string \<Rightarrow> text_frame option" where
  "set_text_try sh tf txt =
     (if tf_raises sh then None
      else case tf_clear tf of
        None \<Rightarrow> None
      | Some tf1 \<Rightarrow>
          (case paragraphs tf1 of
             [] \<Rightarrow> None
           | p # ps \<Rightarrow>
               (let p1 = add_run txt p;
                    p2 = (if length txt > 90 then shrink 20 p1 else p1)
                in Some (tf1\<lparr>paragraphs := p2 # ps\<rparr>))))"

definition set_text :: "shape \<Rightarrow> string \<Rightarrow> shape" where
  "set_text sh txt =
     (case text_frame sh of
        None \<Rightarrow> sh
      | Some tf \<Rightarrow>
          (case set_text_try sh tf txt of
             None \<Rightarrow> sh
           | Some tf' \<Rightarrow> sh\<lparr>text_frame := Some tf'\<rparr>))"

definition fill_para :: "string \<Rightarrow> para \<Rightarrow> para" where
  "fill_para b p =
     (let p1 = (add_run b p)\<lparr>level := 0\<rparr>
      in if length b > 100 then shrink 16 p1 else p1)"

text \<open>
  The loop of \<open>_set_bullets\<close>: bullet 0 goes into \<open>tf.paragraphs[0]\<close>, every later one
  into a paragraph added at the end.
\<close>

fun write_bullets :: "nat \<Rightarrow> string list \<Rightarrow> text_frame \<Rightarrow> text_frame option" where
  "write_bullets i [] tf = Some tf"
| "write_bullets i (b # bs) tf =
     (if i = 0 then
        (case paragraphs tf of
           [] \<Rightarrow> None
         | p # ps \<Rightarrow> write_bullets (Suc i) bs (tf\<lparr>paragraphs := fill_para b p # ps\<rparr>))
      else
        write_bullets (Suc i) bs
          (tf\<lparr>paragraphs := paragraphs tf @ [fill_para b \<lparr>runs = [], level = 0\<rparr>]\<rparr>))"

definition set_bullets_try :: "shape \<Rightarrow> text_frame \<Rightarrow> string list \<Rightarrow> text_frame option" where
  "set_bullets_try sh tf bullets =
     (if tf_raises sh then None
      else case tf_clear tf of
        None \<Rightarrow> None
      | Some tf1 \<Rightarrow>
          (case write_bullets 0 (take 12 bullets) tf1 of
             None \<Rightarrow> None
           | Some tf2 \<Rightarrow> Some (tf2\<lparr>word_wrap := Some True\<rparr>)))"

definition set_bullets :: "shape \<Rightarrow> string list \<Rightarrow> shape" where
  "set_bullets sh bullets =
     (case text_frame sh of
        None \<Rightarrow> sh
      | Some tf \<Rightarrow>
          (case set_bullets_try sh tf bullets of
             None \<Rightarrow> sh
           | Some tf' \<Rightarrow> sh\<lparr>text_frame := Some tf'\<rparr>))"

section \<open>Plan entries\<close>

text \<open>
  A plan entry is a dictionary; a key is absent, present with \<open>None\<close>, or present with a
  value. \<open>d.get(k)\<close> does not tell the first two apart, \<open>d.get(k, default)\<close> does.
  \<open>notes_entry\<close> is the key \<open>"notes"\<close>.
\<close>

datatype 'a field = Absent | PyNone | Val 'a

record entry =
  title :: "string field"
  bullets :: "string list field"
  layout_hint :: "string field"
  notes_entry :: "string field"

text \<open>\<open>slide_data.get("layout_hint", "title_and_content")\<close>\<close>

definition hint_of :: "entry \<Rightarrow> string option" where
  "hint_of e =
     (case layout_hint e of
        Absent \<Rightarrow> Some ''title_and_content''
      | PyNone \<Rightarrow> None
      | Val h \<Rightarrow> Some h)"

text \<open>\<open>(slide_data.get("title") or "")[:200]\<close> and \<open>(slide_data.get("bullets") or [])[:12]\<close>\<close>

definition title_text :: "entry \<Rightarrow> string" where
  "title_text e = take 200 (case title e of Val t \<Rightarrow> t | _ \<Rightarrow> [])"

definition bullets_of :: "entry \<Rightarrow> string list" where
  "bullets_of e = take 12 (case bullets e of Val bs \<Rightarrow> bs | _ \<Rightarrow> [])"

text \<open>\<open>slide_data.get("notes", "")\<close>\<close>

definition notes_of :: "entry \<Rightarrow> string option" where
  "notes_of e =
     (case notes_entry e of
        Absent \<Rightarrow> Some []
      | PyNone \<Rightarrow> None
      | Val n \<Rightarrow> Some n)"

text \<open>
  The end of \<open>plan_slides_via_llm\<close>, from the test of the provider's slide list on:
  an empty list is an error, the list is cut to 30 entries, and missing notes and
  missing or empty layout hints are filled in.
\<close>

definition notes_default :: "entry \<Rightarrow> entry" where
  "notes_default s = (if notes_entry s = Absent then s\<lparr>notes_entry := Val []\<rparr> else s)"

definition hint_default :: "entry \<Rightarrow> entry" where
  "hint_default s =
     (case layout_hint s of
        Val (c # cs) \<Rightarrow> s
      | _ \<Rightarrow> s\<lparr>layout_hint := Val ''title_and_content''\<rparr>)"

definition normalize_plan :: "bool \<Rightarrow> entry list \<Rightarrow> error + entry list" where
  "normalize_plan include_notes provider_slides =
     (if provider_slides = [] then Inl ProviderError
      else
        (let slides1 = take 30 provider_slides;
             slides2 = (if include_notes then map notes_default slides1 else slides1)
         in Inr (map hint_default slides2)))"

section \<open>Notes and pictures\<close>

definition ensure_notes :: "notes_support \<Rightarrow> slide \<Rightarrow> string option \<Rightarrow> slide" where
  "ensure_notes ns sl txt =
     (case txt of
        None \<Rightarrow> sl
      | Some t \<Rightarrow>
          if t = [] then sl
          else (case ns of
                  NotesOk \<Rightarrow> sl\<lparr>notes_text := Some t\<rparr>
                | NotesNoFrame \<Rightarrow> sl
                | NotesRaises \<Rightarrow> sl))"

text \<open>
  A picture drawn by \<open>slide.shapes.add_picture\<close>. A dimension that the library derives
  from the image's own size is \<open>None\<close>.
\<close>

definition new_picture :: "string \<Rightarrow> int option \<Rightarrow> int option \<Rightarrow> shape" where
  "new_picture blob w h =
     \<lparr>shape_type = Some MSO_PICTURE, ph_type = None, ph_idx = 0, text_frame = None,
      tf_raises = False, image_blob = Some blob, width = w, height = h,
      insert_picture_raises = False\<rparr>"

text \<open>
  \<open>_fill_picture_placeholder_if_any\<close>: the result is the slide and the returned flag.
  \<open>insert_picture\<close> of the library replaces the placeholder by a picture with the same
  placeholder type and index; a picture has no text frame, so text the placeholder held
  is gone. A raising \<open>insert_picture\<close> falls back to \<open>add_picture\<close> over the
  placeholder's rectangle; if that raises too, the outer handler returns \<open>False\<close>.
\<close>

definition fill_picture_placeholder_if_any :: "bool \<Rightarrow> slide \<Rightarrow> string \<Rightarrow> slide \<times> bool" where
  "fill_picture_placeholder_if_any add_pic_raises sl image_blob' =
     (case first_placeholder sl PICTURE_TYPES of
        None \<Rightarrow> (sl, False)
      | Some i \<Rightarrow>
          (let pic_ph = placeholders sl ! i in
           if \<not> insert_picture_raises pic_ph then
             (sl\<lparr>placeholders :=
                   (placeholders sl)[i := pic_ph\<lparr>image_blob := Some image_blob',
                                                 text_frame := None\<rparr>]\<rparr>,
              True)
           else if \<not> add_pic_raises then
             (sl\<lparr>other_shapes := other_shapes sl
                  @ [new_picture image_blob' (width pic_ph) (height pic_ph)]\<rparr>, True)
           else (sl, False)))"

text \<open>
  The image step of the loop body (lines 233 to 241); \<open>Inches(1.2)\<close> is 1097280 EMU.
\<close>

definition place_image :: "bool \<Rightarrow> image list \<Rightarrow> nat \<Rightarrow> string list \<Rightarrow> slide \<Rightarrow> slide" where
  "place_image add_pic_raises template_images idx bullets' sl =
     (if template_images \<noteq> [] \<and> (idx mod 3 = 0 \<or> length bullets' \<le> 2) then
        (case template_images ! (idx mod length template_images) of
           (blob, w, h) \<Rightarrow>
             (case fill_picture_placeholder_if_any add_pic_raises sl blob of
                (sl', placed) \<Rightarrow>
                  if placed then sl'
                  else if add_pic_raises then sl'
                  else sl'\<lparr>other_shapes := other_shapes sl'
                           @ [new_picture blob None (Some 1097280)]\<rparr>))
      else sl)"

section \<open>Creating slides\<close>

text \<open>
  \<open>prs.slides.add_slide(layout)\<close> of the library: the new slide gets a copy of every
  placeholder of the layout except the date, footer and slide-number ones, each with an
  empty text frame where the layout's placeholder has one and without a picture; the
  slide is entered in the
  slide list under a fresh relationship id. The source then modifies the slide object in
  place; here the slide is modified first and entered in the list afterwards, in the same
  order of creation.
\<close>

definition empty_text_frame :: text_frame where
  "empty_text_frame = \<lparr>paragraphs = [\<lparr>runs = [], level = 0\<rparr>], word_wrap = None\<rparr>"

definition cloneable :: "shape \<Rightarrow> bool" where
  "cloneable ph = (ph_type ph \<notin> {Some DATE, Some FOOTER, Some SLIDE_NUMBER})"

definition clone_placeholder :: "shape \<Rightarrow> shape" where
  "clone_placeholder ph =
     ph\<lparr>text_frame := map_option (\<lambda>_. empty_text_frame) (text_frame ph), image_blob := None\<rparr>"

definition slide_from_layout :: "nat \<Rightarrow> layout \<Rightarrow> slide" where
  "slide_from_layout i l =
     \<lparr>placeholders = map clone_placeholder (filter cloneable (lplaceholders l)),
      other_shapes = [], notes_text = None, from_layout = i\<rparr>"

definition next_rId :: "nat list \<Rightarrow> nat" where
  "next_rId rs =
     (case List.find (\<lambda>n. n \<notin> set rs) [1 ..< length rs + 2] of
        Some n \<Rightarrow> n
      | None \<Rightarrow> length rs + 1)"

definition append_slide :: "presentation \<Rightarrow> slide \<Rightarrow> presentation" where
  "append_slide prs sl =
     (let rId = next_rId (rels prs)
      in prs\<lparr>rels := rels prs @ [rId], slides := slides prs @ [(rId, sl)]\<rparr>)"

text \<open>\<open>prs.slide_layouts[layout_idx]\<close> raises \<open>IndexError\<close> out of range.\<close>

definition layout_at :: "presentation \<Rightarrow> nat \<Rightarrow> error + layout" where
  "layout_at prs i =
     (if i < length (slide_layouts prs) then Inr (slide_layouts prs ! i) else Inl IndexError)"

text \<open>
  \<open>slide.shapes.add_textbox(left, top, width, height)\<close> of the library: a text box with
  one empty paragraph and word wrap off. Sizes are in EMU (914400 to the inch).
\<close>

definition new_textbox :: "int \<Rightarrow> int \<Rightarrow> shape" where
  "new_textbox w h =
     \<lparr>shape_type = Some MSO_TEXT_BOX, ph_type = None, ph_idx = 0,
      text_frame = Some \<lparr>paragraphs = [\<lparr>runs = [], level = 0\<rparr>], word_wrap = Some False\<rparr>,
      tf_raises = False, image_blob = None, width = Some w, height = Some h,
      insert_picture_raises = False\<rparr>"

section \<open>The build\<close>

definition title_target :: "slide \<Rightarrow> nat option" where
  "title_target sl =
     (case shapes_title sl of
        None \<Rightarrow> first_placeholder sl TITLE_TYPES
      | Some i \<Rightarrow> Some i)"

definition body_target :: "slide \<Rightarrow> nat option" where
  "body_target sl =
     (case first_placeholder sl CONTENT_TYPES of
        None \<Rightarrow> first_text_capable_non_title sl
      | Some i \<Rightarrow> Some i)"

definition write_title :: "bool \<Rightarrow> nat option \<Rightarrow> string \<Rightarrow> slide \<Rightarrow> slide" where
  "write_title textbox_raises title_ph txt sl =
     (case title_ph of
        Some i \<Rightarrow> sl\<lparr>placeholders := (placeholders sl)[i := set_text (placeholders sl ! i) txt]\<rparr>
      | None \<Rightarrow>
          if textbox_raises then sl
          else sl\<lparr>other_shapes := other_shapes sl @ [set_text (new_textbox 7315200 914400) txt]\<rparr>)"

definition write_body :: "bool \<Rightarrow> nat option \<Rightarrow> string list \<Rightarrow> slide \<Rightarrow> slide" where
  "write_body textbox_raises body_ph bs sl =
     (case body_ph of
        Some i \<Rightarrow> sl\<lparr>placeholders := (placeholders sl)[i := set_bullets (placeholders sl ! i) bs]\<rparr>
      | None \<Rightarrow>
          if textbox_raises then sl
          else sl\<lparr>other_shapes := other_shapes sl @ [set_bullets (new_textbox 7315200 4114800) bs]\<rparr>)"

text \<open>Lines 199 to 241: everything the loop body does to the slide it has created.\<close>

definition populate :: "presentation \<Rightarrow> image list \<Rightarrow> nat \<Rightarrow> entry \<Rightarrow> slide \<Rightarrow> slide" where
  "populate prs template_images idx slide_data sl =
     (let title_ph = title_target sl;
          body_ph = body_target sl;
          sl1 = write_title (add_textbox_raises prs) title_ph (title_text slide_data) sl;
          sl2 = write_body (add_textbox_raises prs) body_ph (bullets_of slide_data) sl1;
          sl3 = ensure_notes (notes_master prs) sl2 (notes_of slide_data)
      in place_image (add_picture_raises prs) template_images idx (bullets_of slide_data) sl3)"

text \<open>
  Lines 188 to 197: the slide of the resolved layout is added; if it has no body target
  and some layout has a body, a second slide is added from the first such layout and the
  loop body goes on with the second one. The first one stays in the slide list.
\<close>

definition build_slide :: "image list \<Rightarrow> nat \<Rightarrow> presentation \<Rightarrow> entry \<Rightarrow> error + presentation" where
  "build_slide template_images idx prs slide_data =
     (case layout_at prs (find_layout_index prs (hint_of slide_data)) of
        Inl err \<Rightarrow> Inl err
      | Inr l \<Rightarrow>
          (let sl0 = slide_from_layout (find_layout_index prs (hint_of slide_data)) l in
           if first_placeholder sl0 CONTENT_TYPES = None \<and> first_text_capable_non_title sl0 = None
           then
             (case first_index layout_has_body (slide_layouts prs) of
                Some i \<Rightarrow>
                  Inr (append_slide (append_slide prs sl0)
                        (populate prs template_images idx slide_data
                           (slide_from_layout i (slide_layouts prs ! i))))
              | None \<Rightarrow> Inr (append_slide prs (populate prs template_images idx slide_data sl0)))
           else Inr (append_slide prs (populate prs template_images idx slide_data sl0))))"

fun build_loop :: "image list \<Rightarrow> nat \<Rightarrow> presentation \<Rightarrow> entry list \<Rightarrow> error + presentation" where
  "build_loop template_images idx prs [] = Inr prs"
| "build_loop template_images idx prs (slide_data # rest) =
     (case build_slide template_images idx prs slide_data of
        Inl err \<Rightarrow> Inl err
      | Inr prs' \<Rightarrow> build_loop template_images (Suc idx) prs' rest)"

text \<open>
  \<open>build_presentation\<close>. The template bytes are given parsed, \<open>None\<close> when
  \<open>Presentation(...)\<close> raises; the returned bytes are the saved document itself; \<open>rs\<close>
  are the random draws of the shuffle.
\<close>

definition build_presentation ::
  "nat list \<Rightarrow> presentation option \<Rightarrow> entry list \<Rightarrow> error + presentation" where
  "build_presentation rs template slides_plan =
     (case template of
        None \<Rightarrow> Inl TemplateError
      | Some prs \<Rightarrow>
          (let template_images = collect_template_images rs prs;
               prs1 = purge_all_existing_slides prs
           in case build_loop template_images 0 prs1 slides_plan of
                Inl err \<Rightarrow> Inl err
              | Inr prs2 \<Rightarrow> if save_raises prs2 then Inl SaveError else Inr prs2))"

section \<open>Notions used to state the properties\<close>

text \<open>\<open>first_at P xs i\<close>: position \<open>i\<close> holds the first element of \<open>xs\<close> that satisfies \<open>P\<close>.\<close>

definition first_at :: "('a \<Rightarrow> bool) \<Rightarrow> 'a list \<Rightarrow> nat \<Rightarrow> bool" where
  "first_at P xs i = (i < length xs \<and> P (xs ! i) \<and> list_all (\<lambda>x. \<not> P x) (take i xs))"

text \<open>
  The shapes of all slides of a document, those among them that are pictures, and those
  pictures whose image can be read.
\<close>

definition all_shapes :: "presentation \<Rightarrow> shape list" where
  "all_shapes prs = concat (map (\<lambda>s. slide_shapes (snd s)) (slides prs))"

definition picture_shapes :: "presentation \<Rightarrow> shape list" where
  "picture_shapes prs = filter (\<lambda>sh. shape_type sh = Some MSO_PICTURE) (all_shapes prs)"

definition readable_picture_shapes :: "presentation \<Rightarrow> shape list" where
  "readable_picture_shapes prs =
     filter (\<lambda>sh. shape_type sh = Some MSO_PICTURE \<and> image_blob sh \<noteq> None) (all_shapes prs)"

text \<open>
  A shape is writable when the library does not raise on its text frame: there is a text
  frame, it has a paragraph, and the frame accepts changes. \<open>frame_paragraphs\<close> are the
  paragraphs of a shape, \<open>bullet_paragraphs\<close> those that carry a run.
\<close>

definition writable :: "shape \<Rightarrow> bool" where
  "writable sh =
     (\<not> tf_raises sh \<and> (case text_frame sh of None \<Rightarrow> False | Some tf \<Rightarrow> paragraphs tf \<noteq> []))"

definition frame_paragraphs :: "shape \<Rightarrow> para list" where
  "frame_paragraphs sh = (case text_frame sh of None \<Rightarrow> [] | Some tf \<Rightarrow> paragraphs tf)"

definition bullet_paragraphs :: "shape \<Rightarrow> para list" where
  "bullet_paragraphs sh = filter (\<lambda>p. runs p \<noteq> []) (frame_paragraphs sh)"

definition frame_word_wrap :: "shape \<Rightarrow> bool option" where
  "frame_word_wrap sh = (case text_frame sh of None \<Rightarrow> None | Some tf \<Rightarrow> word_wrap tf)"

definition title_run :: "string \<Rightarrow> run" where
  "title_run txt = \<lparr>run_text = txt, font_size = (if 90 < length txt then Some 20 else None)\<rparr>"

definition bullet_run :: "string \<Rightarrow> run" where
  "bullet_run b = \<lparr>run_text = b, font_size = (if 100 < length b then Some 16 else None)\<rparr>"






text \<open>
  The test of lines 193 to 195 for an entry: the slide of the resolved layout has no body
  target and some layout has a body, so that line 196 adds a second slide.
\<close>

definition second_slide_added :: "presentation \<Rightarrow> entry \<Rightarrow> bool" where
  "second_slide_added prs e =
     (let k = find_layout_index prs (hint_of e) in
      k < length (slide_layouts prs)
      \<and> body_target (slide_from_layout k (slide_layouts prs ! k)) = None
      \<and> first_index layout_has_body (slide_layouts prs) \<noteq> None)"

text \<open>An entry without a usable layout hint: the key is absent, \<open>None\<close> or empty.\<close>

definition hint_missing :: "entry \<Rightarrow> bool" where
  "hint_missing e = (layout_hint e = Absent \<or> layout_hint e = PyNone \<or> layout_hint e = Val [])"








text \<open>
  What a shape holds: a title is one paragraph with one run carrying the text; bullets
  are one paragraph per bullet, each with the bullet's text in one run and at level 0,
  in a frame with word wrap on.
\<close>

definition holds_title :: "shape \<Rightarrow> string \<Rightarrow> bool" where
  "holds_title sh t = (map (\<lambda>p. map run_text (runs p)) (frame_paragraphs sh) = [[t]])"

definition holds_bullets :: "shape \<Rightarrow> string list \<Rightarrow> bool" where
  "holds_bullets sh bs =
     (map (\<lambda>p. map run_text (runs p)) (bullet_paragraphs sh) = map (\<lambda>b. [b]) bs
      \<and> list_all (\<lambda>p. level p = 0) (bullet_paragraphs sh)
      \<and> frame_word_wrap sh = Some True)"






section \<open>Sample documents\<close>

definition text_placeholder :: "ph_type \<Rightarrow> nat \<Rightarrow> shape" where
  "text_placeholder t i =
     \<lparr>shape_type = Some MSO_PLACEHOLDER, ph_type = Some t, ph_idx = i,
      text_frame = Some empty_text_frame, tf_raises = False, image_blob = None,
      width = None, height = None, insert_picture_raises = False\<rparr>"

definition template_of :: "layout list \<Rightarrow> presentation" where
  "template_of ls =
     \<lparr>slide_layouts = ls, slides = [], rels = [1, 2], slide_masters = [''Office Theme''],
      theme = ''Office'', notes_master = NotesOk, add_textbox_raises = False,
      add_picture_raises = False, save_raises = False\<rparr>"

definition named_layouts :: "layout list" where
  "named_layouts =
     [\<lparr>lname = Name ''Title Slide'',
       lplaceholders = [text_placeholder CENTER_TITLE 0, text_placeholder SUBTITLE 1]\<rparr>,
      \<lparr>lname = Name ''Title and Content'',
       lplaceholders = [text_placeholder TITLE 0, text_placeholder BODY 1]\<rparr>,
      \<lparr>lname = Name ''Blank'', lplaceholders = []\<rparr>]"

definition unnamed_layouts :: "layout list" where
  "unnamed_layouts =
     [\<lparr>lname = Name ''Cover'', lplaceholders = [text_placeholder TITLE 0]\<rparr>,
      \<lparr>lname = NameNone, lplaceholders = [text_placeholder TITLE 0, text_placeholder BODY 1]\<rparr>]"

definition bare_layouts :: "layout list" where
  "bare_layouts =
     [\<lparr>lname = Name ''Cover'', lplaceholders = [text_placeholder TITLE 0]\<rparr>,
      \<lparr>lname = Name ''Big TITLE'', lplaceholders = [text_placeholder TITLE 0]\<rparr>]"

definition blank_layouts :: "layout list" where
  "blank_layouts =
     [\<lparr>lname = Name ''Cover'', lplaceholders = []\<rparr>,
      \<lparr>lname = NameRaises, lplaceholders = [text_placeholder TITLE 0]\<rparr>]"

definition linked_picture :: shape where
  "linked_picture =
     \<lparr>shape_type = Some MSO_PICTURE, ph_type = None, ph_idx = 0, text_frame = None,
      tf_raises = False, image_blob = None, width = Some 914400, height = Some 914400,
      insert_picture_raises = False\<rparr>"

definition picture_slide :: "shape list \<Rightarrow> slide" where
  "picture_slide shs = \<lparr>placeholders = [], other_shapes = shs, notes_text = None, from_layout = 0\<rparr>"

definition deck_of :: "layout list \<Rightarrow> slide list \<Rightarrow> presentation" where
  "deck_of ls sls =
     (template_of ls)\<lparr>slides := zip [3 ..< 3 + length sls] sls,
                       rels := [1, 2] @ [3 ..< 3 + length sls]\<rparr>"

definition used_frame :: text_frame where
  "used_frame =
     \<lparr>paragraphs =
        [\<lparr>runs = [\<lparr>run_text = ''Click to edit'', font_size = Some 44\<rparr>,
                  \<lparr>run_text = '' title'', font_size = None\<rparr>], level = 1\<rparr>,
         \<lparr>runs = [\<lparr>run_text = ''second'', font_size = None\<rparr>], level = 2\<rparr>],
      word_wrap = Some False\<rparr>"

definition content_entry :: entry where
  "content_entry =
     \<lparr>title = Val ''Intro'', bullets = Val [''a'', ''b''],
      layout_hint = Val ''title_and_content'', notes_entry = Absent\<rparr>"

definition png_a :: image where
  "png_a = (''PNG-A'', Some 914400, Some 457200)"

definition png_b :: image where
  "png_b = (''PNG-B'', Some 457200, Some 457200)"

text \<open>
  A template in which every library call that the loop body guards fails: text frames
  that reject changes, no text boxes, no pictures, no notes.
\<close>

definition faulty_template :: presentation where
  "faulty_template =
     \<lparr>slide_layouts =
        [\<lparr>lname = Name ''Title and Content'',
          lplaceholders = [(text_placeholder TITLE 0)\<lparr>tf_raises := True\<rparr>,
                           (text_placeholder BODY 1)\<lparr>tf_raises := True\<rparr>,
                           (text_placeholder PICTURE 2)\<lparr>insert_picture_raises := True\<rparr>]\<rparr>],
      slides = [], rels = [1, 2], slide_masters = [''Office Theme''], theme = ''Office'',
      notes_master = NotesRaises, add_textbox_raises = True, add_picture_raises = True,
      save_raises = False\<rparr>"

definition title_only_layouts :: "layout list" where
  "title_only_layouts =
     [\<lparr>lname = Name ''Title and Content'',
       lplaceholders = [text_placeholder TITLE 0, text_placeholder BODY 1]\<rparr>,
      \<lparr>lname = Name ''Title Only'',
       lplaceholders = [text_placeholder TITLE 0, text_placeholder FOOTER 11]\<rparr>]"

definition title_only_entry :: entry where
  "title_only_entry =
     \<lparr>title = Val ''Agenda'', bullets = Val [], layout_hint = Val ''title_only'',
      notes_entry = Absent\<rparr>"

definition bare_entry :: entry where
  "bare_entry = \<lparr>title = PyNone, bullets = Absent, layout_hint = Absent, notes_entry = Absent\<rparr>"

definition caption_layouts :: "layout list" where
  "caption_layouts =
     [\<lparr>lname = Name ''Title Only'',
       lplaceholders = [text_placeholder TITLE 0, text_placeholder BODY 1]\<rparr>,
      \<lparr>lname = Name ''Content with Caption'',
       lplaceholders = [text_placeholder TITLE 0, text_placeholder BODY 1]\<rparr>]"



section \<open>Layout resolution\<close>

lemma first_index_None_iff: "first_index P xs = None \<longleftrightarrow> list_all (\<lambda>x. \<not> P x) xs"
  by (induction xs) auto

lemma first_index_Some_iff: "first_index P xs = Some i \<longleftrightarrow> first_at P xs i"
proof (induction xs arbitrary: i)
  case Nil
  then show ?case by (simp add: first_at_def)
next
  case (Cons x xs)
  show ?case
  proof (cases "P x")
    case True
    then show ?thesis by (cases i) (auto simp: first_at_def)
  next
    case False
    then show ?thesis using Cons.IH by (cases i) (auto simp: first_at_def)
  qed
qed

lemma first_at_unique: "first_at P xs i \<Longrightarrow> first_at P xs j \<Longrightarrow> i = j"
  using first_index_Some_iff [of P xs] by (metis option.inject)

lemma try_names_None_iff:
  "try_names names ls = None \<longleftrightarrow> list_all (\<lambda>n. list_all (\<lambda>l. \<not> name_matches n l) ls) names"
proof (induction names)
  case Nil
  show ?case by simp
next
  case (Cons n ns)
  show ?case
  proof (cases "first_index (name_matches n) ls")
    case None
    then show ?thesis using Cons.IH first_index_None_iff [of "name_matches n" ls] by simp
  next
    case (Some i)
    then show ?thesis using first_index_None_iff [of "name_matches n" ls] by simp
  qed
qed

lemma try_names_Some:
  "k < length names \<Longrightarrow> list_all (\<lambda>n. list_all (\<lambda>l. \<not> name_matches n l) ls) (take k names)
   \<Longrightarrow> first_at (name_matches (names ! k)) ls i \<Longrightarrow> try_names names ls = Some i"
proof (induction names arbitrary: k)
  case Nil
  then show ?case by simp
next
  case (Cons n ns)
  show ?case
  proof (cases k)
    case 0
    with Cons.prems show ?thesis by (simp add: first_index_Some_iff [symmetric])
  next
    case (Suc k')
    with Cons.prems have "first_index (name_matches n) ls = None"
      by (simp add: first_index_None_iff)
    moreover from Suc Cons.prems Cons.IH [of k'] have "try_names ns ls = Some i" by simp
    ultimately show ?thesis by simp
  qed
qed

lemma lower_char_bits:
  "lower_char (Char b0 b1 b2 b3 b4 b5 b6 b7) =
     (if b6 \<and> \<not> b5 \<and> \<not> b7 \<and> (b0 \<or> b1 \<or> b2 \<or> b3 \<or> b4) \<and> \<not> (b4 \<and> b3 \<and> (b2 \<or> (b1 \<and> b0)))
      then Char b0 b1 b2 b3 b4 True b6 b7 else Char b0 b1 b2 b3 b4 b5 b6 b7)"
  apply (cases b0; cases b1; cases b2; cases b3; cases b4; cases b5; cases b6; cases b7)
  apply (simp_all add: lower_char_def char_of_def bit_Suc_0_iff bit_0)
  done

lemmas layout_eval =
  first_at_def name_matches_def lower_def lower_char_bits sublist_Cons_right
  prefs_for_def LAYOUT_PREFS_def layout_has_body_def CONTENT_TYPES_def TITLE_TYPES_def
  template_of_def text_placeholder_def empty_text_frame_def

text \<open>
  Claim C2. \<open>_find_layout_index\<close> resolves a hint in four tiers, the first that applies
  deciding: (1) the patterns of the hint in preference order, each against the layouts in
  template order, by case-insensitive containment in the display name; the result is the
  first layout matching the first pattern that matches any layout; (2) if no pattern
  matches any layout, the first layout for which \<open>_layout_has_body\<close> holds; (3) if there
  is none, the first layout whose name contains "title", case-insensitively; (4) if there
  is none either, index 0. The function is total: it returns an index in every case and
  raises nothing.
\<close>

theorem find_layout_index_order:
  "(\<forall>k i. k < length (prefs_for hint)
       \<and> list_all (\<lambda>n. list_all (\<lambda>l. \<not> name_matches n l) (slide_layouts prs)) (take k (prefs_for hint))
       \<and> first_at (name_matches (prefs_for hint ! k)) (slide_layouts prs) i
       \<longrightarrow> find_layout_index prs hint = i)
   \<and> (list_all (\<lambda>n. list_all (\<lambda>l. \<not> name_matches n l) (slide_layouts prs)) (prefs_for hint) \<longrightarrow>
        (\<forall>i. first_at layout_has_body (slide_layouts prs) i \<longrightarrow> find_layout_index prs hint = i)
        \<and> (list_all (\<lambda>l. \<not> layout_has_body l) (slide_layouts prs) \<longrightarrow>
             (\<forall>i. first_at (name_matches ''title'') (slide_layouts prs) i
                   \<longrightarrow> find_layout_index prs hint = i)
             \<and> (list_all (\<lambda>l. \<not> name_matches ''title'' l) (slide_layouts prs)
                   \<longrightarrow> find_layout_index prs hint = 0)))"
proof -
  let ?ls = "slide_layouts prs"
  let ?nomatch = "list_all (\<lambda>n. list_all (\<lambda>l. \<not> name_matches n l) ?ls) (prefs_for hint)"
  have tier1: "find_layout_index prs hint = i"
    if "k < length (prefs_for hint)"
      and "list_all (\<lambda>n. list_all (\<lambda>l. \<not> name_matches n l) ?ls) (take k (prefs_for hint))"
      and "first_at (name_matches (prefs_for hint ! k)) ?ls i" for k i
  proof -
    from that have "try_names (prefs_for hint) ?ls = Some i" by (rule try_names_Some)
    then show ?thesis by (simp add: find_layout_index_def)
  qed
  have tier2: "find_layout_index prs hint = i"
    if "?nomatch" and "first_at layout_has_body ?ls i" for i
  proof -
    from that have "try_names (prefs_for hint) ?ls = None"
      and "first_index layout_has_body ?ls = Some i"
      by (simp_all add: try_names_None_iff first_index_Some_iff)
    then show ?thesis by (simp add: find_layout_index_def)
  qed
  have tier3: "find_layout_index prs hint = i"
    if "?nomatch" and "list_all (\<lambda>l. \<not> layout_has_body l) ?ls"
      and "first_at (name_matches ''title'') ?ls i" for i
  proof -
    from that have "try_names (prefs_for hint) ?ls = None"
      and "first_index layout_has_body ?ls = None"
      and "first_index (name_matches ''title'') ?ls = Some i"
      by (simp_all add: try_names_None_iff first_index_Some_iff first_index_None_iff)
    then show ?thesis by (simp add: find_layout_index_def)
  qed
  have tier4: "find_layout_index prs hint = 0"
    if "?nomatch" and "list_all (\<lambda>l. \<not> layout_has_body l) ?ls"
      and "list_all (\<lambda>l. \<not> name_matches ''title'' l) ?ls"
  proof -
    from that have "try_names (prefs_for hint) ?ls = None"
      and "first_index layout_has_body ?ls = None"
      and "first_index (name_matches ''title'') ?ls = None"
      by (simp_all add: try_names_None_iff first_index_None_iff)
    then show ?thesis by (simp add: find_layout_index_def)
  qed
  from tier1 tier2 tier3 tier4 show ?thesis by blast
qed

theorem find_layout_index_order_witness:
  "find_layout_index (template_of named_layouts) (Some ''section_header'') = 0
   \<and> find_layout_index (template_of unnamed_layouts) (Some ''quote'') = 1
   \<and> find_layout_index (template_of bare_layouts) None = 1
   \<and> find_layout_index (template_of blank_layouts) (Some ''summary'') = 0"
proof -
  have h1: "2 < length (prefs_for (Some ''section_header''))
       \<and> list_all (\<lambda>n. list_all (\<lambda>l. \<not> name_matches n l) (slide_layouts (template_of named_layouts)))
            (take 2 (prefs_for (Some ''section_header'')))
       \<and> first_at (name_matches (prefs_for (Some ''section_header'') ! 2))
            (slide_layouts (template_of named_layouts)) 0"
    by (simp add: layout_eval named_layouts_def)
  have h2: "list_all (\<lambda>n. list_all (\<lambda>l. \<not> name_matches n l) (slide_layouts (template_of unnamed_layouts)))
            (prefs_for (Some ''quote''))
       \<and> first_at layout_has_body (slide_layouts (template_of unnamed_layouts)) 1"
    by (simp add: layout_eval unnamed_layouts_def)
  have h3: "list_all (\<lambda>n. list_all (\<lambda>l. \<not> name_matches n l) (slide_layouts (template_of bare_layouts)))
            (prefs_for None)
       \<and> list_all (\<lambda>l. \<not> layout_has_body l) (slide_layouts (template_of bare_layouts))
       \<and> first_at (name_matches ''title'') (slide_layouts (template_of bare_layouts)) 1"
    by (simp add: layout_eval bare_layouts_def)
  have h4: "list_all (\<lambda>n. list_all (\<lambda>l. \<not> name_matches n l) (slide_layouts (template_of blank_layouts)))
            (prefs_for (Some ''summary''))
       \<and> list_all (\<lambda>l. \<not> layout_has_body l) (slide_layouts (template_of blank_layouts))
       \<and> list_all (\<lambda>l. \<not> name_matches ''title'' l) (slide_layouts (template_of blank_layouts))"
    by (simp add: layout_eval blank_layouts_def)
  note t1 = find_layout_index_order [of "Some ''section_header''" "template_of named_layouts"]
  note t2 = find_layout_index_order [of "Some ''quote''" "template_of unnamed_layouts"]
  note t3 = find_layout_index_order [of None "template_of bare_layouts"]
  note t4 = find_layout_index_order [of "Some ''summary''" "template_of blank_layouts"]
  have c1: "find_layout_index (template_of named_layouts) (Some ''section_header'') = 0"
    using t1 [THEN conjunct1, rule_format, OF h1] .
  have c2: "find_layout_index (template_of unnamed_layouts) (Some ''quote'') = 1"
    using t2 [THEN conjunct2, rule_format, THEN conjunct1, rule_format] h2 by (elim conjE)
  have c3: "find_layout_index (template_of bare_layouts) None = 1"
    using t3 [THEN conjunct2, rule_format, THEN conjunct2, rule_format, THEN conjunct1, rule_format]
      h3 by (elim conjE)
  have c4: "find_layout_index (template_of blank_layouts) (Some ''summary'') = 0"
    using t4 [THEN conjunct2, rule_format, THEN conjunct2, rule_format, THEN conjunct2, rule_format]
      h4 by (elim conjE)
  from c1 c2 c3 c4 show ?thesis by simp
qed

section \<open>Purging\<close>

lemma purge_loop_frame:
  "slide_layouts (purge_loop prs ss) = slide_layouts prs
   \<and> slide_masters (purge_loop prs ss) = slide_masters prs
   \<and> theme (purge_loop prs ss) = theme prs
   \<and> notes_master (purge_loop prs ss) = notes_master prs
   \<and> add_textbox_raises (purge_loop prs ss) = add_textbox_raises prs
   \<and> add_picture_raises (purge_loop prs ss) = add_picture_raises prs
   \<and> save_raises (purge_loop prs ss) = save_raises prs"
  by (induction ss arbitrary: prs) simp_all

lemma purge_loop_slides:
  "mset (slides (purge_loop prs ss)) = mset (slides prs) - mset ss"
  by (induction ss arbitrary: prs) (simp_all add: multiset_eq_iff)

lemma purge_loop_rels:
  "set (rels (purge_loop prs ss)) = set (rels prs) - fst ` set ss"
  by (induction ss arbitrary: prs) auto

lemma purge_slides_empty: "slides (purge_all_existing_slides prs) = []"
  using purge_loop_slides [of prs "slides prs"] by (simp add: purge_all_existing_slides_def)

text \<open>
  Claim C5. After \<open>_purge_all_existing_slides\<close> the document has no slides, while its
  layouts (hence their number), its masters and its theme are the same as before; the
  relationships released are exactly those of the slides removed.
\<close>

theorem purge_keeps_layouts_and_theme:
  "slides (purge_all_existing_slides prs) = []
   \<and> slide_layouts (purge_all_existing_slides prs) = slide_layouts prs
   \<and> length (slide_layouts (purge_all_existing_slides prs)) = length (slide_layouts prs)
   \<and> slide_masters (purge_all_existing_slides prs) = slide_masters prs
   \<and> theme (purge_all_existing_slides prs) = theme prs
   \<and> set (rels (purge_all_existing_slides prs)) = set (rels prs) - fst ` set (slides prs)"
  using purge_loop_frame [of prs "slides prs"] purge_loop_rels [of prs "slides prs"]
  by (simp add: purge_all_existing_slides_def purge_slides_empty [unfolded purge_all_existing_slides_def])

section \<open>Image harvesting\<close>

lemma shuffle_loop_mset: "k < length xs \<Longrightarrow> mset (shuffle_loop rs k xs) = mset xs"
proof (induction k arbitrary: rs xs)
  case 0
  show ?case by simp
next
  case (Suc k)
  let ?j = "case rs of [] \<Rightarrow> 0 | r # _ \<Rightarrow> r mod (Suc (Suc k))"
  have j: "?j < length xs" using Suc.prems by (cases rs) (auto intro: less_trans [OF mod_less_divisor] simp: less_Suc_eq_le intro!: order.strict_trans2 [OF mod_less_divisor])
  have "mset (xs[Suc k := xs ! ?j, ?j := xs ! Suc k]) = mset xs"
    using Suc.prems j by (simp add: mset_swap)
  moreover have "mset (shuffle_loop (tl rs) k (xs[Suc k := xs ! ?j, ?j := xs ! Suc k]))
      = mset (xs[Suc k := xs ! ?j, ?j := xs ! Suc k])"
    using Suc.prems by (intro Suc.IH) simp
  ultimately show ?case by (simp add: Let_def)
qed

lemma shuffle_mset: "mset (shuffle rs xs) = mset xs"
  by (cases xs) (simp_all add: shuffle_def shuffle_loop_mset)

lemma shuffle_length: "length (shuffle rs xs) = length xs"
  using shuffle_mset [of rs xs] by (metis size_mset)

lemma harvest_length: "length (harvest prs) = length (readable_picture_shapes prs)"
proof -
  have *: "length (List.map_filter image_of shs)
      = length (filter (\<lambda>sh. shape_type sh = Some MSO_PICTURE \<and> image_blob sh \<noteq> None) shs)" for shs
    by (induction shs) (auto simp: List.map_filter_def image_of_def split: option.splits mso_shape_type.splits)
  show ?thesis
    unfolding harvest_def readable_picture_shapes_def all_shapes_def
    by (induction "slides prs" arbitrary: prs) (simp_all add: * length_concat comp_def filter_concat)
qed

lemma shuffle_Nil: "shuffle rs [] = []"
  by (simp add: shuffle_def)

lemma harvest_purged: "harvest (purge_all_existing_slides prs) = []"
  by (simp add: harvest_def purge_slides_empty)

lemma sample_eval:
  "slides (deck_of ls sls) = zip [3 ..< 3 + length sls] sls"
  "slide_layouts (deck_of ls sls) = ls"
  by (simp_all add: deck_of_def template_of_def)

text \<open>
  Claim C4, as the code has it. The images are collected from the slides of the
  template as it is loaded, before the purge (after the purge there is nothing left to
  collect). The collected sequence is a permutation, fixed by the random draws, of the
  images found, and its length is the number of picture shapes whose image can be read;
  a picture shape without a readable image is skipped.
\<close>

theorem harvested_image_count:
  "length (collect_template_images rs prs) = length (readable_picture_shapes prs)
   \<and> mset (collect_template_images rs prs) = mset (harvest prs)
   \<and> collect_template_images rs (purge_all_existing_slides prs) = []
   \<and> (\<forall>slides_plan.
        build_presentation rs (Some prs) slides_plan =
          (case build_loop (collect_template_images rs prs) 0 (purge_all_existing_slides prs)
                  slides_plan of
             Inl err \<Rightarrow> Inl err
           | Inr prs2 \<Rightarrow> if save_raises prs2 then Inl SaveError else Inr prs2))"
  by (simp add: collect_template_images_def shuffle_length shuffle_mset harvest_length
      harvest_purged shuffle_Nil build_presentation_def Let_def)

theorem harvested_image_count_witness:
  "length (collect_template_images [1] (deck_of named_layouts
      [picture_slide [linked_picture, linked_picture\<lparr>image_blob := Some ''PNG''\<rparr>]])) = 1"
  using harvested_image_count
    [of "[1]" "deck_of named_layouts
      [picture_slide [linked_picture, linked_picture\<lparr>image_blob := Some ''PNG''\<rparr>]]"]
  by (simp add: readable_picture_shapes_def all_shapes_def sample_eval slide_shapes_def
      picture_slide_def linked_picture_def)

text \<open>
  The claim as stated, with all picture shapes counted, fails on a slide whose only
  picture has no readable image: one picture shape, nothing harvested.
\<close>

theorem harvested_image_count_counterexample:
  "length (picture_shapes (deck_of named_layouts [picture_slide [linked_picture]])) = 1
   \<and> length (collect_template_images [] (deck_of named_layouts [picture_slide [linked_picture]])) = 0"
  by (simp add: picture_shapes_def all_shapes_def sample_eval slide_shapes_def
      picture_slide_def linked_picture_def collect_template_images_def shuffle_def
      harvest_def image_of_def List.map_filter_def)

section \<open>Writing text\<close>

lemma writableE:
  assumes "writable sh"
  obtains tf p ps where "text_frame sh = Some tf" "paragraphs tf = p # ps" "\<not> tf_raises sh"
  using assms by (auto simp: writable_def split: option.splits list.splits) (metis list.exhaust)

lemma set_text_paragraphs:
  assumes "writable sh"
  shows "\<exists>p. frame_paragraphs (set_text sh txt) = [p] \<and> runs p = [title_run txt]"
proof -
  from assms obtain tf p ps where "text_frame sh = Some tf" "paragraphs tf = p # ps" "\<not> tf_raises sh"
    by (rule writableE)
  then show ?thesis
    by (simp add: set_text_def set_text_try_def tf_clear_def frame_paragraphs_def add_run_def
        shrink_def title_run_def Let_def)
qed

lemma fill_para_runs:
  "runs p = [] \<Longrightarrow> runs (fill_para b p) = [bullet_run b] \<and> level (fill_para b p) = 0"
  by (simp add: fill_para_def add_run_def shrink_def bullet_run_def Let_def)

lemma write_bullets_later:
  "i \<noteq> 0 \<Longrightarrow> write_bullets i bs tf =
     Some (tf\<lparr>paragraphs := paragraphs tf @ map (\<lambda>b. fill_para b \<lparr>runs = [], level = 0\<rparr>) bs\<rparr>)"
  by (induction bs arbitrary: i tf) simp_all

lemma write_bullets_first:
  "paragraphs tf = [p] \<Longrightarrow> write_bullets 0 (b # bs) tf =
     Some (tf\<lparr>paragraphs := fill_para b p # map (\<lambda>b. fill_para b \<lparr>runs = [], level = 0\<rparr>) bs\<rparr>)"
  by (simp add: write_bullets_later)

lemma set_bullets_frame:
  assumes "writable sh"
  shows "map runs (frame_paragraphs (set_bullets sh bs))
           = (if bs = [] then [[]] else map (\<lambda>b. [bullet_run b]) (take 12 bs))
         \<and> (bs \<noteq> [] \<longrightarrow> list_all (\<lambda>p. level p = 0) (frame_paragraphs (set_bullets sh bs)))
         \<and> frame_word_wrap (set_bullets sh bs) = Some True"
proof -
  from assms obtain tf p ps where tf: "text_frame sh = Some tf" "paragraphs tf = p # ps" "\<not> tf_raises sh"
    by (rule writableE)
  show ?thesis
  proof (cases "take 12 bs")
    case Nil
    then have "bs = []" by simp
    with tf show ?thesis
      by (simp add: set_bullets_def set_bullets_try_def tf_clear_def frame_paragraphs_def
          frame_word_wrap_def)
  next
    case (Cons b bs')
    then have ne: "bs \<noteq> []" by auto
    have r: "runs (fill_para x \<lparr>runs = [], level = 0\<rparr>) = [bullet_run x]
        \<and> level (fill_para x \<lparr>runs = [], level = 0\<rparr>) = 0" for x
      by (simp add: fill_para_runs)
    have r0: "runs (fill_para b (p\<lparr>runs := []\<rparr>)) = [bullet_run b]
        \<and> level (fill_para b (p\<lparr>runs := []\<rparr>)) = 0"
      by (simp add: fill_para_runs)
    from tf Cons ne r r0 show ?thesis
      by (simp add: set_bullets_def set_bullets_try_def tf_clear_def frame_paragraphs_def
          frame_word_wrap_def write_bullets_later list_all_iff comp_def)
  qed
qed

lemma set_bullets_bullet_paragraphs:
  assumes "writable sh"
  shows "map runs (bullet_paragraphs (set_bullets sh bs)) = map (\<lambda>b. [bullet_run b]) (take 12 bs)
         \<and> list_all (\<lambda>p. level p = 0) (bullet_paragraphs (set_bullets sh bs))"
proof -
  note f = set_bullets_frame [OF assms, of bs]
  have m: "map runs (filter (\<lambda>p. runs p \<noteq> []) ps) = filter (\<lambda>r. r \<noteq> []) (map runs ps)" for ps :: "para list"
    by (induction ps) simp_all
  show ?thesis
  proof (cases "bs = []")
    case True
    with f have "map runs (bullet_paragraphs (set_bullets sh bs)) = []"
      by (simp add: bullet_paragraphs_def m)
    then have "bullet_paragraphs (set_bullets sh bs) = []" by simp
    with True show ?thesis by simp
  next
    case False
    with f have "map runs (bullet_paragraphs (set_bullets sh bs)) = map (\<lambda>b. [bullet_run b]) (take 12 bs)"
      by (simp add: bullet_paragraphs_def m filter_map comp_def)
    moreover from False f have "list_all (\<lambda>p. level p = 0) (bullet_paragraphs (set_bullets sh bs))"
      by (simp add: bullet_paragraphs_def list_all_iff)
    ultimately show ?thesis by simp
  qed
qed

text \<open>
  Claim C7. On a writable shape, \<open>_set_text\<close> leaves exactly one paragraph with exactly
  one run, which carries the text, whatever the frame held before; the run's font size is
  set (to 20 pt) only when the text is longer than 90 characters and is otherwise left to
  the template. \<open>_set_bullets\<close> sets a bullet's font size (to 16 pt) only when the bullet
  is longer than 100 characters.
\<close>

theorem text_runs_and_font_sizes:
  "writable sh \<Longrightarrow>
     map runs (frame_paragraphs (set_text sh s))
       = [[\<lparr>run_text = s, font_size = (if 90 < length s then Some 20 else None)\<rparr>]]
     \<and> map runs (bullet_paragraphs (set_bullets sh bs))
       = map (\<lambda>b. [\<lparr>run_text = b, font_size = (if 100 < length b then Some 16 else None)\<rparr>])
           (take 12 bs)"
  using set_text_paragraphs [of sh s] set_bullets_bullet_paragraphs [of sh bs]
  by (auto simp: title_run_def bullet_run_def)

theorem text_runs_and_font_sizes_witness:
  "writable ((text_placeholder BODY 1)\<lparr>text_frame := Some used_frame\<rparr>)
   \<and> map runs (frame_paragraphs
        (set_text ((text_placeholder BODY 1)\<lparr>text_frame := Some used_frame\<rparr>) ''Intro''))
       = [[\<lparr>run_text = ''Intro'', font_size = None\<rparr>]]
   \<and> map runs (bullet_paragraphs
        (set_bullets ((text_placeholder BODY 1)\<lparr>text_frame := Some used_frame\<rparr>)
           [replicate 150 (CHR ''a''), replicate 50 (CHR ''b'')]))
       = [[\<lparr>run_text = replicate 150 (CHR ''a''), font_size = Some 16\<rparr>],
          [\<lparr>run_text = replicate 50 (CHR ''b''), font_size = None\<rparr>]]"
proof -
  have w: "writable ((text_placeholder BODY 1)\<lparr>text_frame := Some used_frame\<rparr>)"
    by (simp add: writable_def text_placeholder_def used_frame_def)
  from w text_runs_and_font_sizes [OF w, of "''Intro''"
      "[replicate 150 (CHR ''a''), replicate 50 (CHR ''b'')]"]
  show ?thesis by simp
qed

section \<open>What the steps of the loop body change on a slide\<close>

text \<open>The definitions that evaluate a sample slide.\<close>

lemmas slide_eval =
  slide_from_layout_def named_layouts_def text_placeholder_def cloneable_def
  clone_placeholder_def title_target_def shapes_title_def body_target_def
  first_placeholder_def first_text_capable_non_title_def CONTENT_TYPES_def TITLE_TYPES_def
  PICTURE_TYPES_def writable_def empty_text_frame_def

lemma first_index_lt: "first_index P xs = Some i \<Longrightarrow> i < length xs"
  by (simp add: first_index_Some_iff first_at_def)






























section \<open>The build as a whole\<close>

lemma try_names_lt: "try_names names ls = Some i \<Longrightarrow> i < length ls"
  by (induction names) (auto split: option.splits dest: first_index_lt)

lemma find_layout_index_lt:
  "slide_layouts prs \<noteq> [] \<Longrightarrow> find_layout_index prs h < length (slide_layouts prs)"
  by (auto simp: find_layout_index_def split: option.splits dest: try_names_lt first_index_lt)

lemma find_layout_index_layouts:
  "slide_layouts a = slide_layouts b \<Longrightarrow> find_layout_index a h = find_layout_index b h"
  by (simp add: find_layout_index_def split: option.splits)

lemma second_slide_added_layouts:
  "slide_layouts a = slide_layouts b \<Longrightarrow> second_slide_added a e = second_slide_added b e"
  using find_layout_index_layouts [of a b "hint_of e"] by (simp add: second_slide_added_def)

lemma body_target_None_iff:
  "body_target sl = None \<longleftrightarrow>
     first_placeholder sl CONTENT_TYPES = None \<and> first_text_capable_non_title sl = None"
  by (simp add: body_target_def split: option.splits)

lemma append_slide_frame:
  "slide_layouts (append_slide prs sl) = slide_layouts prs"
  "save_raises (append_slide prs sl) = save_raises prs"
  "length (slides (append_slide prs sl)) = Suc (length (slides prs))"
  "map snd (slides (append_slide prs sl)) = map snd (slides prs) @ [sl]"
  by (simp_all add: append_slide_def Let_def)

lemma build_slide_no_layout:
  "slide_layouts prs = [] \<Longrightarrow> build_slide imgs idx prs e = Inl IndexError"
  by (simp add: build_slide_def layout_at_def)

lemma build_slide_returns:
  assumes "slide_layouts prs \<noteq> []"
  shows "\<exists>prs'. build_slide imgs idx prs e = Inr prs'
           \<and> slide_layouts prs' = slide_layouts prs
           \<and> save_raises prs' = save_raises prs
           \<and> length (slides prs')
              = length (slides prs) + (if second_slide_added prs e then 2 else 1)"
proof -
  let ?k = "find_layout_index prs (hint_of e)"
  from assms have k: "?k < length (slide_layouts prs)" by (rule find_layout_index_lt)
  then have la: "layout_at prs ?k = Inr (slide_layouts prs ! ?k)" by (simp add: layout_at_def)
  show ?thesis
  proof (cases "second_slide_added prs e")
    case True
    then obtain i where "first_index layout_has_body (slide_layouts prs) = Some i"
      and "body_target (slide_from_layout ?k (slide_layouts prs ! ?k)) = None"
      by (auto simp: second_slide_added_def Let_def)
    with la True show ?thesis
      by (simp add: build_slide_def Let_def body_target_None_iff append_slide_frame)
  next
    case False
    with k have "body_target (slide_from_layout ?k (slide_layouts prs ! ?k)) \<noteq> None
        \<or> first_index layout_has_body (slide_layouts prs) = None"
      by (auto simp: second_slide_added_def Let_def)
    with la False show ?thesis
      by (auto simp: build_slide_def Let_def body_target_None_iff append_slide_frame)
  qed
qed

lemma build_loop_no_layout:
  "slide_layouts prs = [] \<Longrightarrow> plan \<noteq> [] \<Longrightarrow> build_loop imgs idx prs plan = Inl IndexError"
  by (cases plan) (simp_all add: build_slide_no_layout)

lemma build_loop_returns:
  assumes "slide_layouts prs \<noteq> []"
  shows "\<exists>prs'. build_loop imgs idx prs plan = Inr prs'
           \<and> slide_layouts prs' = slide_layouts prs
           \<and> save_raises prs' = save_raises prs
           \<and> length (slides prs')
              = length (slides prs) + length plan + length (filter (second_slide_added prs) plan)"
  using assms
proof (induction plan arbitrary: prs idx)
  case Nil
  show ?case by simp
next
  case (Cons e plan)
  from build_slide_returns [OF Cons.prems, of imgs idx e]
  obtain prs1 where s: "build_slide imgs idx prs e = Inr prs1"
    "slide_layouts prs1 = slide_layouts prs" "save_raises prs1 = save_raises prs"
    "length (slides prs1) = length (slides prs) + (if second_slide_added prs e then 2 else 1)"
    by blast
  from Cons.prems s(2) have "slide_layouts prs1 \<noteq> []" by simp
  from Cons.IH [OF this, of "Suc idx"]
  obtain prs2 where l: "build_loop imgs (Suc idx) prs1 plan = Inr prs2"
    "slide_layouts prs2 = slide_layouts prs1" "save_raises prs2 = save_raises prs1"
    "length (slides prs2)
       = length (slides prs1) + length plan + length (filter (second_slide_added prs1) plan)"
    by blast
  have "filter (second_slide_added prs1) plan = filter (second_slide_added prs) plan"
    using second_slide_added_layouts [OF s(2)] by (simp cong: filter_cong)
  with s l show ?case by simp
qed

lemma purge_frame:
  "slide_layouts (purge_all_existing_slides prs) = slide_layouts prs"
  "save_raises (purge_all_existing_slides prs) = save_raises prs"
  using purge_loop_frame [of prs "slides prs"] by (simp_all add: purge_all_existing_slides_def)

lemma build_presentation_returns:
  assumes "slide_layouts prs \<noteq> []" and "\<not> save_raises prs"
  shows "\<exists>doc. build_presentation rs (Some prs) plan = Inr doc
           \<and> length (slides doc) = length plan + length (filter (second_slide_added prs) plan)"
proof -
  let ?p = "purge_all_existing_slides prs"
  from assms have "slide_layouts ?p \<noteq> []" by (simp add: purge_frame)
  from build_loop_returns [OF this, of "collect_template_images rs prs" 0 plan]
  obtain doc where d: "build_loop (collect_template_images rs prs) 0 ?p plan = Inr doc"
    "save_raises doc = save_raises ?p"
    "length (slides doc)
       = length (slides ?p) + length plan + length (filter (second_slide_added ?p) plan)"
    by blast
  have "filter (second_slide_added ?p) plan = filter (second_slide_added prs) plan"
    using second_slide_added_layouts [OF purge_frame(1)] by (simp cong: filter_cong)
  with d assms(2) show ?thesis
    by (simp add: build_presentation_def Let_def purge_frame purge_slides_empty)
qed

lemma build_presentation_save_fails:
  assumes "save_raises prs" and "slide_layouts prs \<noteq> [] \<or> plan = []"
  shows "build_presentation rs (Some prs) plan = Inl SaveError"
proof (cases "slide_layouts prs = []")
  case True
  with assms have "plan = []" by simp
  with assms(1) show ?thesis by (simp add: build_presentation_def Let_def purge_frame)
next
  case False
  then have "slide_layouts (purge_all_existing_slides prs) \<noteq> []" by (simp add: purge_frame)
  from build_loop_returns [OF this, of "collect_template_images rs prs" 0 plan]
  obtain doc where "build_loop (collect_template_images rs prs) 0 (purge_all_existing_slides prs) plan = Inr doc"
    "save_raises doc = save_raises (purge_all_existing_slides prs)"
    by blast
  with assms(1) show ?thesis by (simp add: build_presentation_def Let_def purge_frame)
qed

lemma build_presentation_no_layout:
  assumes "slide_layouts prs = []" and "plan \<noteq> []"
  shows "build_presentation rs (Some prs) plan = Inl IndexError"
  using assms by (simp add: build_presentation_def Let_def build_loop_no_layout purge_frame)


















text \<open>The definitions that evaluate a build on a sample template.\<close>

lemmas build_eval =
  build_presentation_def build_slide_def layout_at_def populate_def append_slide_def next_rId_def
  write_title_def write_body_def set_text_def set_text_try_def set_bullets_def
  set_bullets_try_def tf_clear_def add_run_def shrink_def fill_para_def ensure_notes_def
  place_image_def fill_picture_placeholder_if_any_def notes_of_def bullets_of_def
  title_text_def hint_of_def collect_template_images_def shuffle_def harvest_def
  purge_all_existing_slides_def find_layout_index_def layout_eval slide_eval Let_def
  List.map_filter_def

lemma content_entry_single_slide:
  "\<not> second_slide_added (template_of named_layouts) content_entry"
  by (simp add: second_slide_added_def hint_of_def content_entry_def find_layout_index_def
      layout_eval slide_eval template_of_def)

section \<open>Image placement\<close>


















section \<open>Title and bullets of an entry\<close>



lemma holds_cong:
  "text_frame a = text_frame b \<Longrightarrow> holds_title a t = holds_title b t"
  "text_frame a = text_frame b \<Longrightarrow> holds_bullets a bs = holds_bullets b bs"
  by (simp_all add: holds_title_def holds_bullets_def frame_paragraphs_def bullet_paragraphs_def
      frame_word_wrap_def)






















section \<open>Failures\<close>

text \<open>
  Claim C8. Every failure inside the per-slide writing (title, bullets, notes, picture) is
  a branch of \<open>set_text\<close>, \<open>set_bullets\<close>, \<open>write_title\<close>, \<open>write_body\<close>,
  \<open>ensure_notes\<close> and \<open>place_image\<close> that returns the slide as it is, so whatever
  these failures are, a template with a layout that can be saved gives a document with a
  slide for every plan entry. A failure outside the per-slide writing reaches the caller:
  no layout to create the slide from, a failing save, an unreadable template.
\<close>

theorem build_failure_semantics:
  "(slide_layouts prs \<noteq> [] \<and> \<not> save_raises prs \<longrightarrow>
      (\<exists>doc. build_presentation rs (Some prs) plan = Inr doc \<and> length plan \<le> length (slides doc)))
   \<and> (slide_layouts prs = [] \<and> plan \<noteq> [] \<longrightarrow>
        build_presentation rs (Some prs) plan = Inl IndexError)
   \<and> (save_raises prs \<and> (slide_layouts prs \<noteq> [] \<or> plan = []) \<longrightarrow>
        build_presentation rs (Some prs) plan = Inl SaveError)
   \<and> build_presentation rs None plan = Inl TemplateError"
proof -
  have 1: "\<exists>doc. build_presentation rs (Some prs) plan = Inr doc \<and> length plan \<le> length (slides doc)"
    if "slide_layouts prs \<noteq> []" "\<not> save_raises prs"
    using build_presentation_returns [OF that, of rs plan] by auto
  have 4: "build_presentation rs None plan = Inl TemplateError"
    by (simp add: build_presentation_def)
  from 1 4 build_presentation_no_layout [of prs plan rs] build_presentation_save_fails [of prs plan rs]
  show ?thesis by blast
qed

theorem build_failure_semantics_witness:
  "(\<exists>doc. build_presentation [] (Some faulty_template) [content_entry, content_entry] = Inr doc
       \<and> length [content_entry, content_entry] \<le> length (slides doc))
   \<and> build_presentation [] (Some (template_of [])) [content_entry] = Inl IndexError
   \<and> build_presentation [] (Some (faulty_template\<lparr>save_raises := True\<rparr>)) [content_entry]
       = Inl SaveError"
proof -
  have a: "slide_layouts faulty_template \<noteq> [] \<and> \<not> save_raises faulty_template"
    by (simp add: faulty_template_def)
  have b: "slide_layouts (template_of []) = [] \<and> [content_entry] \<noteq> []"
    by (simp add: template_of_def)
  have c: "save_raises (faulty_template\<lparr>save_raises := True\<rparr>)
      \<and> (slide_layouts (faulty_template\<lparr>save_raises := True\<rparr>) \<noteq> [] \<or> [content_entry] = [])"
    by (simp add: faulty_template_def)
  from build_failure_semantics [of faulty_template "[]" "[content_entry, content_entry]",
      THEN conjunct1] a
  have 1: "\<exists>doc. build_presentation [] (Some faulty_template) [content_entry, content_entry] = Inr doc
       \<and> length [content_entry, content_entry] \<le> length (slides doc)" by (rule mp)
  from build_failure_semantics [of "template_of []" "[]" "[content_entry]",
      THEN conjunct2, THEN conjunct1] b
  have 2: "build_presentation [] (Some (template_of [])) [content_entry] = Inl IndexError"
    by (rule mp)
  from build_failure_semantics [of "faulty_template\<lparr>save_raises := True\<rparr>" "[]" "[content_entry]",
      THEN conjunct2, THEN conjunct2, THEN conjunct1] c
  have 3: "build_presentation [] (Some (faulty_template\<lparr>save_raises := True\<rparr>)) [content_entry]
       = Inl SaveError" by (rule mp)
  from 1 2 3 show ?thesis by (intro conjI)
qed
text \<open>With every guarded call failing, the slide of an entry stays as it was created.\<close>

lemma faulty_slide_left_blank:
  "populate faulty_template [png_a] 0 content_entry
     (slide_from_layout 0 (slide_layouts faulty_template ! 0))
   = slide_from_layout 0 (slide_layouts faulty_template ! 0)"
  by (simp add: populate_def Let_def faulty_template_def slide_eval write_title_def write_body_def
      set_text_def set_text_try_def set_bullets_def set_bullets_try_def ensure_notes_def
      place_image_def fill_picture_placeholder_if_any_def notes_of_def content_entry_def
      png_a_def bullets_of_def title_text_def)

section \<open>Entries with missing fields\<close>

lemma place_image_notes: "notes_text (place_image a imgs idx bs sl) = notes_text sl"
  by (simp add: place_image_def fill_picture_placeholder_if_any_def Let_def
      split: option.splits prod.splits)

lemma write_notes:
  "notes_text (write_title r tp t sl) = notes_text sl"
  "notes_text (write_body r bp bs sl) = notes_text sl"
  by (simp_all add: write_title_def write_body_def split: option.splits)

lemma ensure_notes_empty:
  "n = None \<or> n = Some [] \<Longrightarrow> ensure_notes ns sl n = sl"
  by (auto simp: ensure_notes_def)

lemma notes_of_empty:
  "notes_entry e = Absent \<or> notes_entry e = PyNone \<or> notes_entry e = Val []
   \<Longrightarrow> notes_of e = None \<or> notes_of e = Some []"
  by (auto simp: notes_of_def)

text \<open>
  Claim C10. Reading the optional fields of an entry never fails. An absent or \<open>None\<close>
  title gives the empty title text and absent or \<open>None\<close> bullets give no bullets, so such
  an entry is processed exactly like one whose title is the empty string and whose bullet
  list is empty; with absent, \<open>None\<close> or empty notes the notes of the slide stay as
  they are. Whatever fields the entries of a plan lack, the build returns a document
  (given a layout to create slides from and a save that works).
\<close>

theorem missing_fields_are_empty:
  "(title e = Absent \<or> title e = PyNone \<longrightarrow> title_text e = [])
   \<and> (bullets e = Absent \<or> bullets e = PyNone \<longrightarrow> bullets_of e = [])
   \<and> (notes_entry e = Absent \<or> notes_entry e = PyNone \<or> notes_entry e = Val [] \<longrightarrow>
        notes_text (populate prs imgs idx e sl) = notes_text sl)
   \<and> ((title e = Absent \<or> title e = PyNone) \<and> (bullets e = Absent \<or> bullets e = PyNone)
        \<and> (notes_entry e = Absent \<or> notes_entry e = PyNone \<or> notes_entry e = Val []) \<longrightarrow>
        populate prs imgs idx e sl
          = populate prs imgs idx (e\<lparr>title := Val [], bullets := Val [], notes_entry := Val []\<rparr>) sl)
   \<and> (slide_layouts prs \<noteq> [] \<and> \<not> save_raises prs \<longrightarrow>
        (\<exists>doc. build_presentation rs (Some prs) plan = Inr doc))"
proof -
  have 1: "title e = Absent \<or> title e = PyNone \<longrightarrow> title_text e = []"
    by (auto simp: title_text_def)
  have 2: "bullets e = Absent \<or> bullets e = PyNone \<longrightarrow> bullets_of e = []"
    by (auto simp: bullets_of_def)
  have 3: "notes_text (populate prs imgs idx e sl) = notes_text sl"
    if "notes_entry e = Absent \<or> notes_entry e = PyNone \<or> notes_entry e = Val []"
    using ensure_notes_empty [OF notes_of_empty [OF that]]
    by (simp add: populate_def Let_def place_image_notes write_notes)
  have 4: "populate prs imgs idx e sl
          = populate prs imgs idx (e\<lparr>title := Val [], bullets := Val [], notes_entry := Val []\<rparr>) sl"
    if "(title e = Absent \<or> title e = PyNone) \<and> (bullets e = Absent \<or> bullets e = PyNone)
        \<and> (notes_entry e = Absent \<or> notes_entry e = PyNone \<or> notes_entry e = Val [])"
  proof -
    from that have t: "title_text e = []" and b: "bullets_of e = []"
      and n: "notes_of e = None \<or> notes_of e = Some []"
      using 1 2 notes_of_empty by blast+
    have "ensure_notes ns x (notes_of e) = ensure_notes ns x (Some [])" for ns x
      using ensure_notes_empty [OF n] by (simp add: ensure_notes_def)
    with t b show ?thesis
      by (simp add: populate_def Let_def title_text_def bullets_of_def notes_of_def)
  qed
  have 5: "slide_layouts prs \<noteq> [] \<and> \<not> save_raises prs \<longrightarrow>
        (\<exists>doc. build_presentation rs (Some prs) plan = Inr doc)"
    using build_presentation_returns [of prs rs plan] by blast
  from 1 2 3 4 5 show ?thesis by (intro conjI impI) blast+
qed

theorem missing_fields_are_empty_witness:
  "title_text bare_entry = [] \<and> bullets_of bare_entry = []
   \<and> (\<exists>doc. build_presentation [] (Some (template_of named_layouts)) [bare_entry, bare_entry]
         = Inr doc)"
proof -
  note t = missing_fields_are_empty [of bare_entry "template_of named_layouts" "[]" 0
      "slide_from_layout 1 (named_layouts ! 1)" "[]" "[bare_entry, bare_entry]"]
  have h: "title bare_entry = Absent \<or> title bare_entry = PyNone"
    "bullets bare_entry = Absent \<or> bullets bare_entry = PyNone"
    "slide_layouts (template_of named_layouts) \<noteq> [] \<and> \<not> save_raises (template_of named_layouts)"
    by (simp_all add: bare_entry_def template_of_def named_layouts_def)
  from t h show ?thesis by blast
qed

section \<open>The default layout hint\<close>

lemma hint_default_missing:
  "hint_missing e \<Longrightarrow> hint_default e = e\<lparr>layout_hint := Val ''title_and_content''\<rparr>"
  by (auto simp: hint_missing_def hint_default_def)

lemma hint_default_present:
  "\<not> hint_missing e \<Longrightarrow> hint_default e = e"
  by (cases "layout_hint e") (auto simp: hint_missing_def hint_default_def split: list.splits)

lemma prefs_title_and_content:
  "prefs_for (Some ''title_and_content'')
     = [''Title and Content'', ''Content with Caption'', ''Title and Content (2)'',
        ''Title and Content 2'']"
  by (simp add: prefs_for_def LAYOUT_PREFS_def)

lemma build_slide_absent_hint:
  assumes "layout_hint e = Absent"
  shows "build_slide imgs idx prs e
           = build_slide imgs idx prs (e\<lparr>layout_hint := Val ''title_and_content''\<rparr>)"
proof -
  let ?e = "e\<lparr>layout_hint := Val ''title_and_content''\<rparr>"
  from assms have h: "hint_of ?e = hint_of e" by (simp add: hint_of_def)
  have p: "populate prs imgs idx ?e sl = populate prs imgs idx e sl" for sl
    by (simp add: populate_def Let_def title_text_def bullets_of_def notes_of_def)
  show ?thesis unfolding build_slide_def h p ..
qed

lemma normalize_plan_hints:
  "normalize_plan inc ps = Inr plan \<Longrightarrow> list_all (\<lambda>e. \<not> hint_missing e) plan"
proof -
  have n: "\<not> hint_missing (hint_default e)" for e
    by (cases "layout_hint e") (auto simp: hint_missing_def hint_default_def split: list.splits)
  assume "normalize_plan inc ps = Inr plan"
  then show ?thesis
    by (auto simp: normalize_plan_def Let_def list_all_iff n split: if_splits)
qed

text \<open>
  Claim C9, as the code has it. An entry whose \<open>layout_hint\<close> key is absent is
  processed by \<open>build_presentation\<close> exactly as if the hint were "title_and_content".
  An entry whose hint is absent, \<open>None\<close> or the empty string is given the hint
  "title_and_content" by \<open>plan_slides_via_llm\<close>, so every entry of a plan it returns
  carries a non-empty hint and such an entry is then resolved with the title_and_content
  patterns. \<open>build_presentation\<close> itself, given an empty or \<open>None\<close> hint, resolves the
  layout with the two fallback patterns "Title and Content", "Title Only".
\<close>

theorem missing_hint_is_title_and_content:
  "(hint_missing e \<longrightarrow>
      hint_of (hint_default e) = Some ''title_and_content''
      \<and> prefs_for (hint_of (hint_default e))
          = [''Title and Content'', ''Content with Caption'', ''Title and Content (2)'',
             ''Title and Content 2'']
      \<and> find_layout_index prs (hint_of (hint_default e))
          = find_layout_index prs (Some ''title_and_content'')
      \<and> build_slide imgs idx prs (hint_default e)
          = build_slide imgs idx prs (e\<lparr>layout_hint := Val ''title_and_content''\<rparr>))
   \<and> (layout_hint e = Absent \<longrightarrow>
        hint_of e = Some ''title_and_content''
        \<and> build_slide imgs idx prs e
            = build_slide imgs idx prs (e\<lparr>layout_hint := Val ''title_and_content''\<rparr>))
   \<and> (normalize_plan inc ps = Inr plan \<longrightarrow> list_all (\<lambda>e. \<not> hint_missing e) plan)
   \<and> prefs_for (Some []) = [''Title and Content'', ''Title Only'']
   \<and> prefs_for None = [''Title and Content'', ''Title Only'']"
proof -
  have 4: "prefs_for (Some []) = [''Title and Content'', ''Title Only'']"
    "prefs_for None = [''Title and Content'', ''Title Only'']"
    by (simp_all add: prefs_for_def LAYOUT_PREFS_def)
  have 1: "hint_of (hint_default e) = Some ''title_and_content''" if "hint_missing e"
    using hint_default_missing [OF that] by (simp add: hint_of_def)
  have 2: "build_slide imgs idx prs (hint_default e)
          = build_slide imgs idx prs (e\<lparr>layout_hint := Val ''title_and_content''\<rparr>)"
    if "hint_missing e"
    using hint_default_missing [OF that] by simp
  have 3: "hint_of e = Some ''title_and_content''" if "layout_hint e = Absent"
    using that by (simp add: hint_of_def)
  from 1 2 3 4 build_slide_absent_hint [of e imgs idx prs] normalize_plan_hints [of inc ps plan]
    prefs_title_and_content
  show ?thesis by (intro conjI impI) simp_all
qed

theorem missing_hint_is_title_and_content_witness:
  "hint_missing (content_entry\<lparr>layout_hint := Val []\<rparr>)
   \<and> find_layout_index (template_of named_layouts)
        (hint_of (hint_default (content_entry\<lparr>layout_hint := Val []\<rparr>)))
      = find_layout_index (template_of named_layouts) (Some ''title_and_content'')
   \<and> hint_of bare_entry = Some ''title_and_content''"
proof -
  have h: "hint_missing (content_entry\<lparr>layout_hint := Val []\<rparr>)" "layout_hint bare_entry = Absent"
    by (simp_all add: hint_missing_def bare_entry_def)
  from missing_hint_is_title_and_content [of "content_entry\<lparr>layout_hint := Val []\<rparr>"
      "template_of named_layouts" "[]" 0 False "[]" "[]", THEN conjunct1] h(1)
  have a: "find_layout_index (template_of named_layouts)
        (hint_of (hint_default (content_entry\<lparr>layout_hint := Val []\<rparr>)))
      = find_layout_index (template_of named_layouts) (Some ''title_and_content'')"
    by blast
  from missing_hint_is_title_and_content [of bare_entry
      "template_of named_layouts" "[]" 0 False "[]" "[]", THEN conjunct2, THEN conjunct1] h(2)
  have b: "hint_of bare_entry = Some ''title_and_content''" by blast
  from h(1) a b show ?thesis by (intro conjI)
qed


text \<open>
  The claim as stated fails for an empty hint given to \<open>build_presentation\<close>: with
  the layouts "Title Only" and "Content with Caption" the entry gets layout 0, the same
  entry with the hint "title_and_content" gets layout 1.
\<close>

theorem empty_hint_counterexample:
  "map_sum id (\<lambda>doc. map (\<lambda>s. from_layout (snd s)) (slides doc))
     (build_presentation [] (Some (template_of caption_layouts))
        [content_entry\<lparr>layout_hint := Val []\<rparr>]) = Inr [0]
   \<and> map_sum id (\<lambda>doc. map (\<lambda>s. from_layout (snd s)) (slides doc))
     (build_presentation [] (Some (template_of caption_layouts))
        [content_entry\<lparr>layout_hint := Val ''title_and_content''\<rparr>]) = Inr [1]"
  by (simp add: build_eval caption_layouts_def content_entry_def)

section \<open>The number of slides\<close>

lemma normalize_plan_length:
  "provider_slides \<noteq> [] \<Longrightarrow>
     \<exists>plan. normalize_plan inc provider_slides = Inr plan
            \<and> length plan = min (length provider_slides) 30"
  by (simp add: normalize_plan_def Let_def min.commute)

text \<open>
  Claim C1, as the code has it. The cut to 30 entries is made by \<open>plan_slides_via_llm\<close>:
  the plan it returns has \<open>min(len, 30)\<close> entries. \<open>build_presentation\<close> applies no
  cap: it returns a document with exactly one slide for every entry of the plan it is
  given, whenever no entry makes lines 193 to 197 add a second slide.
\<close>

theorem slide_count_without_cap:
  "(provider_slides \<noteq> [] \<longrightarrow>
      (\<exists>plan. normalize_plan inc provider_slides = Inr plan
            \<and> length plan = min (length provider_slides) 30))
   \<and> (slide_layouts prs \<noteq> [] \<and> \<not> save_raises prs
        \<and> list_all (\<lambda>e. \<not> second_slide_added prs e) slides_plan \<longrightarrow>
      (\<exists>doc. build_presentation rs (Some prs) slides_plan = Inr doc
            \<and> length (slides doc) = length slides_plan))"
proof -
  have "filter (second_slide_added prs) slides_plan = []"
    if "list_all (\<lambda>e. \<not> second_slide_added prs e) slides_plan"
    using that by (simp add: list_all_iff filter_empty_conv)
  with build_presentation_returns [of prs rs slides_plan] normalize_plan_length [of provider_slides inc]
  show ?thesis by auto
qed

theorem slide_count_without_cap_witness:
  "(\<exists>plan. normalize_plan False (replicate 31 content_entry) = Inr plan \<and> length plan = 30)
   \<and> (\<exists>doc. build_presentation [] (Some (template_of named_layouts)) [content_entry, content_entry]
          = Inr doc \<and> length (slides doc) = length [content_entry, content_entry])"
proof -
  note t = slide_count_without_cap [of "replicate 31 content_entry" False
      "template_of named_layouts" "[content_entry, content_entry]" "[]"]
  have a: "replicate 31 content_entry \<noteq> []" by simp
  have b: "slide_layouts (template_of named_layouts) \<noteq> [] \<and> \<not> save_raises (template_of named_layouts)
      \<and> list_all (\<lambda>e. \<not> second_slide_added (template_of named_layouts) e)
           [content_entry, content_entry]"
    using content_entry_single_slide by (simp add: template_of_def named_layouts_def)
  from t [THEN conjunct1] a
  have "\<exists>plan. normalize_plan False (replicate 31 content_entry) = Inr plan
      \<and> length plan = min (length (replicate 31 content_entry)) 30"
    by (rule mp)
  then have 1: "\<exists>plan. normalize_plan False (replicate 31 content_entry) = Inr plan \<and> length plan = 30"
    by simp
  from t [THEN conjunct2] b
  have 2: "\<exists>doc. build_presentation [] (Some (template_of named_layouts)) [content_entry, content_entry]
          = Inr doc \<and> length (slides doc) = length [content_entry, content_entry]"
    by (rule mp)
  from 1 2 show ?thesis by (rule conjI)
qed

text \<open>
  The claim as stated fails on a plan of 31 entries given to \<open>build_presentation\<close>: the
  document has 31 slides, not 30.
\<close>

theorem slide_count_counterexample:
  "map_sum id (\<lambda>doc. length (slides doc))
     (build_presentation [] (Some (template_of named_layouts)) (replicate 31 content_entry))
     = Inr 31
   \<and> min (length (replicate 31 content_entry)) 30 = 30"
proof -
  have "slide_layouts (template_of named_layouts) \<noteq> []" "\<not> save_raises (template_of named_layouts)"
    by (simp_all add: template_of_def named_layouts_def)
  from build_presentation_returns [OF this, of "[]" "replicate 31 content_entry"]
  obtain doc where "build_presentation [] (Some (template_of named_layouts))
      (replicate 31 content_entry) = Inr doc"
    "length (slides doc) = 31 + length (filter (second_slide_added (template_of named_layouts))
        (replicate 31 content_entry))"
    by auto
  moreover have "filter (second_slide_added (template_of named_layouts))
      (replicate 31 content_entry) = []"
    using content_entry_single_slide by (simp add: filter_empty_conv)
  ultimately show ?thesis by simp
qed

text \<open>
  When the slide of the resolved layout has no body target and another layout has a
  body, the entry gets a second slide and the first one stays in the document: here one
  entry with the hint "title_only" gives a slide of layout 1 followed by a slide of
  layout 0.
\<close>

lemma one_entry_two_slides:
  "map_sum id (\<lambda>doc. map (\<lambda>s. from_layout (snd s)) (slides doc))
     (build_presentation [] (Some (template_of title_only_layouts)) [title_only_entry])
     = Inr [1, 0]"
  by (simp add: build_eval title_only_layouts_def title_only_entry_def)

end
